theory Spec2Isabelle
  imports Main
begin

section \<open>The memcached text protocol server (package mc)\<close>

text \<open>
  A shallow embedding of the request parser (memcache_req.go), the response formatter
  (memcache_res.go) and the connection server (the server file: handleConn, Stop).
  Go strings and byte slices are both byte sequences: they are \<open>string\<close> (a list of
  8-bit characters) here. Go's \<open>int\<close> and \<open>int64\<close> are \<open>int\<close>; every value of these
  types that the parser produces comes out of \<open>ParseInt\<close>, which checks the 64-bit range.
\<close>

subsection \<open>Bytes\<close>

type_synonym bytes = string

definition CR :: char where
  "CR = CHR 0x0D"

definition LF :: char where
  "LF = CHR 0x0A"

definition CRLF :: string where
  "CRLF = [CR, LF]"

subsection \<open>Errors\<close>

text \<open>
  strconv reports a failure as a \<open>*NumError\<close> with the function's name, the input and
  one of \<open>ErrSyntax\<close>, \<open>ErrRange\<close>.
\<close>

datatype num_err = ErrSyntax | ErrRange

datatype NumError = NumError string string num_err

text \<open>
  What a failing stream read returns: \<open>io.EOF\<close>, \<open>io.ErrUnexpectedEOF\<close> (made by
  \<open>io.ReadFull\<close>), or any other error of the connection, kept by its text.
\<close>

datatype io_error = EOF | ErrUnexpectedEOF | NetError string

text \<open>
  \<open>type Error struct { Description string }\<close> is the protocol error. Its description is
  kept as the message the source builds, one constructor per call of \<open>NewError\<close>, with
  the values that the source formats into the text (\<open>%q\<close>, \<open>%d\<close>, \<open>err.Error()\<close>) as
  arguments:
  \<^item> \<open>EmptyLine\<close>: "empty line";
  \<^item> \<open>TooFewParams c\<close>: \<open>fmt.Sprintf("too few params to command %q", c)\<close>;
  \<^item> \<open>CannotReadExptime e\<close>: \<open>"cannot read exptime " + e.Error()\<close>, and likewise
    \<open>CannotReadBytes\<close>, \<open>CannotReadValue\<close>, \<open>CannotReadDelay\<close>;
  \<^item> \<open>ReadOnly n m\<close>: \<open>fmt.Sprintf("Read only %d bytes of %d bytes of expected data", n, m)\<close>;
  \<^item> \<open>ExpectedCR\<close>, \<open>ExpectedLF\<close>: "expected \r", "expected \n";
  \<^item> \<open>UnknownCommand c\<close>: \<open>fmt.Sprintf("unknown command %q", c)\<close>.
\<close>

datatype Description =
    EmptyLine
  | TooFewParams string
  | CannotReadExptime NumError
  | CannotReadBytes NumError
  | ReadOnly int int
  | ExpectedCR
  | ExpectedLF
  | CannotReadValue NumError
  | CannotReadDelay NumError
  | UnknownCommand string

text \<open>
  A Go \<open>error\<close> value that \<open>ReadRequest\<close> can return: the package's own \<open>Error\<close>
  (the protocol error), an error of the stream (the transport error), or the
  \<open>*strconv.NumError\<close> that the cas branch returns as it is.
\<close>

datatype go_error = Error Description | IOError io_error | NumErr NumError

fun is_ProtocolError :: "go_error \<Rightarrow> bool" where
  "is_ProtocolError (Error d) = True"
| "is_ProtocolError (IOError e) = False"
| "is_ProtocolError (NumErr e) = False"

fun is_TransportError :: "go_error \<Rightarrow> bool" where
  "is_TransportError (Error d) = False"
| "is_TransportError (IOError e) = True"
| "is_TransportError (NumErr e) = False"

text \<open>
  The outcome of a call: a value, a returned error, a runtime panic (with the runtime's
  message), which a deferred \<open>recover\<close> catches, or a fatal error of the runtime, which
  ends the process and which nothing catches.
\<close>

datatype 'a res = Ok 'a | Err go_error | Panic string | Fatal string

subsection \<open>strconv: ParseInt, Atoi, Itoa\<close>

definition is_digit :: "char \<Rightarrow> bool" where
  "is_digit c = (48 \<le> (of_char c :: nat) \<and> (of_char c :: nat) \<le> 57)"

definition digit_val :: "char \<Rightarrow> nat" where
  "digit_val c = (of_char c :: nat) - 48"

text \<open>
  The digit loop of \<open>strconv.ParseUint(s, 10, 64)\<close>: a byte that is no digit is a
  syntax error; a value that leaves the unsigned 64-bit range is a range error, found
  at the digit where it happens.
\<close>

fun ParseUint_loop :: "nat \<Rightarrow> string \<Rightarrow> num_err + nat" where
  "ParseUint_loop n [] = Inr n"
| "ParseUint_loop n (c # cs) =
     (if \<not> is_digit c then Inl ErrSyntax
      else if n \<ge> 2 ^ 64 div 10 + 1 then Inl ErrRange
      else if n * 10 + digit_val c > 2 ^ 64 - 1 then Inl ErrRange
      else ParseUint_loop (n * 10 + digit_val c) cs)"

definition ParseUint :: "string \<Rightarrow> num_err + nat" where
  "ParseUint s = (if s = [] then Inl ErrSyntax else ParseUint_loop 0 s)"

text \<open>
  \<open>strconv.ParseInt(s, 10, 64)\<close>: an optional sign, then \<open>ParseUint\<close>; the result must
  fit the signed 64-bit range.
\<close>

definition ParseInt :: "string \<Rightarrow> NumError + int" where
  "ParseInt s0 =
     (if s0 = [] then Inl (NumError ''ParseInt'' s0 ErrSyntax)
      else
        let neg = (hd s0 = CHR ''-'');
            s = (if hd s0 = CHR ''+'' \<or> hd s0 = CHR ''-'' then tl s0 else s0)
        in case ParseUint s of
             Inl e \<Rightarrow> Inl (NumError ''ParseInt'' s0 e)
           | Inr un \<Rightarrow>
               if \<not> neg \<and> un \<ge> 2 ^ 63 then Inl (NumError ''ParseInt'' s0 ErrRange)
               else if neg \<and> un > 2 ^ 63 then Inl (NumError ''ParseInt'' s0 ErrRange)
               else Inr (if neg then - int un else int un))"

text \<open>
  \<open>strconv.Atoi(s)\<close> is \<open>ParseInt(s, 10, 0)\<close> with the function's name in the error
  (\<open>int\<close> has 64 bits).
\<close>

definition Atoi :: "string \<Rightarrow> NumError + int" where
  "Atoi s =
     (case ParseInt s of
        Inl (NumError f num e) \<Rightarrow> Inl (NumError ''Atoi'' num e)
      | Inr i \<Rightarrow> Inr i)"

definition digit_char :: "nat \<Rightarrow> char" where
  "digit_char d = ''0123456789'' ! d"

function format_dec :: "nat \<Rightarrow> string" where
  "format_dec n =
     (if n < 10 then [digit_char n]
      else format_dec (n div 10) @ [digit_char (n mod 10)])"
  by pat_completeness auto
termination
  by (relation "measure (\<lambda>n. n)") auto

declare format_dec.simps [simp del]

definition Itoa :: "int \<Rightarrow> string" where
  "Itoa i = (if i < 0 then CHR ''-'' # format_dec (nat (- i)) else format_dec (nat i))"

subsection \<open>strings.Fields\<close>

text \<open>
  \<open>strings.Fields\<close> splits around runs of white space as \<open>unicode.IsSpace\<close> defines it.
  On the bytes of the string these are the six ASCII characters tab, line feed,
  vertical tab, form feed, carriage return and space, and the UTF-8 encodings of
  U+0085, U+00A0, U+1680, U+2000 to U+200A, U+2028, U+2029, U+202F, U+205F and U+3000.
  \<open>space_len s\<close> is the number of bytes of the white-space character that \<open>s\<close> starts
  with, 0 when it starts with none.
\<close>

definition ascii_space :: "char \<Rightarrow> bool" where
  "ascii_space c =
     (c = CHR 0x09 \<or> c = CHR 0x0A \<or> c = CHR 0x0B \<or> c = CHR 0x0C \<or> c = CHR 0x0D \<or> c = CHR 0x20)"

fun space_len :: "string \<Rightarrow> nat" where
  "space_len [] = 0"
| "space_len (c # cs) =
     (if ascii_space c then 1
      else if c = CHR 0xC2 then
        (if take 1 cs = [CHR 0x85] \<or> take 1 cs = [CHR 0xA0] then 2 else 0)
      else if c = CHR 0xE1 then
        (if take 2 cs = [CHR 0x9A, CHR 0x80] then 3 else 0)
      else if c = CHR 0xE2 then
        (if take 1 cs = [CHR 0x80] \<and> length cs \<ge> 2 \<and>
            ((128 \<le> (of_char (cs ! 1) :: nat) \<and> (of_char (cs ! 1) :: nat) \<le> 138) \<or>
             cs ! 1 = CHR 0xA8 \<or> cs ! 1 = CHR 0xA9 \<or> cs ! 1 = CHR 0xAF) then 3
         else if take 2 cs = [CHR 0x81, CHR 0x9F] then 3
         else 0)
      else if c = CHR 0xE3 then
        (if take 2 cs = [CHR 0x80, CHR 0x80] then 3 else 0)
      else 0)"

definition flush_field :: "string \<Rightarrow> string list" where
  "flush_field cur = (if cur = [] then [] else [cur])"

function Fields_from :: "string \<Rightarrow> string \<Rightarrow> string list" where
  "Fields_from cur [] = flush_field cur"
| "Fields_from cur (c # cs) =
     (if space_len (c # cs) > 0
      then flush_field cur @ Fields_from [] (drop (space_len (c # cs)) (c # cs))
      else Fields_from (cur @ [c]) cs)"
  by pat_completeness auto
termination
  by (relation "measure (\<lambda>(cur, s). length s)") auto

definition Fields :: "string \<Rightarrow> string list" where
  "Fields s = Fields_from [] s"

subsection \<open>bufio.Reader over the connection\<close>

text \<open>
  The reader, as far as the parser can observe it: the size of its buffer
  (\<open>NewReaderSize\<close> makes it at least 16), the bytes that the stream still delivers
  before it fails, and the error that a read of the stream returns after them (\<open>EOF\<close>
  when the peer closes). The stream reports its failure on a read of its own, after
  the last bytes, as \<open>strings.Reader\<close> and a network connection do.
\<close>

record Reader =
  rd_size :: nat
  rd_data :: bytes
  rd_err :: io_error

definition NewReaderSize :: "bytes \<Rightarrow> io_error \<Rightarrow> nat \<Rightarrow> Reader" where
  "NewReaderSize d e n = \<lparr>rd_size = max 16 n, rd_data = d, rd_err = e\<rparr>"

definition NewReader :: "bytes \<Rightarrow> io_error \<Rightarrow> Reader" where
  "NewReader d e = NewReaderSize d e 4096"

text \<open>
  \<open>ReadLine\<close>: the bytes up to the next line feed, without the line feed and without a
  carriage return before it. A line that fills the buffer before its line feed comes is
  returned in pieces (\<open>isPrefix\<close>, which \<open>ReadRequest\<close> ignores), a trailing carriage
  return of the piece being left in the buffer. At the end of the stream the bytes that
  are left are a line; with none left the stream's error is returned.
\<close>

definition ReadLine :: "Reader \<Rightarrow> bytes res \<times> Reader" where
  "ReadLine b =
     (let d = rd_data b; N = rd_size b;
          line = takeWhile (\<lambda>c. c \<noteq> LF) d; i = length line
      in if i < length d \<and> i < N then
           (Ok (if line \<noteq> [] \<and> last line = CR then butlast line else line),
            b\<lparr>rd_data := drop (Suc i) d\<rparr>)
         else if N \<le> length d then
           (if 0 < N \<and> d ! (N - 1) = CR
            then (Ok (take (N - 1) d), b\<lparr>rd_data := drop (N - 1) d\<rparr>)
            else (Ok (take N d), b\<lparr>rd_data := drop N d\<rparr>))
         else if d = [] then (Err (IOError (rd_err b)), b)
         else (Ok d, b\<lparr>rd_data := []\<rparr>))"

text \<open>
  \<open>io.ReadFull(r, buf)\<close>: fills \<open>buf\<close> and returns its length, or returns the number of
  bytes read and an error: \<open>ErrUnexpectedEOF\<close> when the stream ended after some but
  not all bytes, the stream's error otherwise. An empty \<open>buf\<close> reads nothing.
\<close>

definition ReadFull :: "Reader \<Rightarrow> bytes \<Rightarrow> (bytes \<times> nat \<times> io_error option) \<times> Reader" where
  "ReadFull b buf =
     (let d = rd_data b; n = length buf
      in if n \<le> length d then ((take n d, n, None), b\<lparr>rd_data := drop n d\<rparr>)
         else ((d @ drop (length d) buf, length d,
                Some (if d \<noteq> [] \<and> rd_err b = EOF then ErrUnexpectedEOF else rd_err b)),
               b\<lparr>rd_data := []\<rparr>))"

definition ReadByte :: "Reader \<Rightarrow> (char \<times> io_error option) \<times> Reader" where
  "ReadByte b =
     (case rd_data b of
        [] \<Rightarrow> ((CHR 0x00, Some (rd_err b)), b)
      | c # cs \<Rightarrow> ((c, None), b\<lparr>rd_data := cs\<rparr>))"

subsection \<open>Response and its wire format (memcache_res.go)\<close>

record Value =
  Key :: string
  Flags :: string
  Data :: bytes
  Cas :: string

record Response =
  Response :: string
  Values :: "Value list"

definition Response0 :: Response where
  "Response0 = \<lparr>Response = [], Values = []\<rparr>"

text \<open>
  \<open>Response.String\<close>: the loop over \<open>r.Values\<close> appends to the buffer \<open>b\<close>, one
  \<open>WriteString\<close> or \<open>Write\<close> after the other.
\<close>

definition write_Value :: "bytes \<Rightarrow> Value \<Rightarrow> bytes" where
  "write_Value b0 v =
     (let b = b0 @ ''VALUE '';
          b = b @ Value.Key v;
          b = b @ '' '';
          b = b @ Value.Flags v;
          b = b @ '' '';
          b = b @ Itoa (int (length (Value.Data v)));
          b = (if Value.Cas v \<noteq> [] then (b @ '' '') @ Value.Cas v else b);
          b = b @ CRLF;
          b = b @ Value.Data v;
          b = b @ CRLF
      in b)"

fun write_Values :: "bytes \<Rightarrow> Value list \<Rightarrow> bytes" where
  "write_Values b [] = b"
| "write_Values b (v # vs) = write_Values (write_Value b v) vs"

definition Response_String :: "Response \<Rightarrow> string" where
  "Response_String r =
     (let b = write_Values [] (Values r);
          b = b @ Response r;
          b = b @ CRLF
      in b)"

subsection \<open>Request (memcache_req.go)\<close>

record Request =
  Command :: string
  Key :: string
  Keys :: "string list"
  Flags :: string
  Exptime :: int
  Data :: bytes
  Value :: int
  Cas :: string
  Noreply :: bool

text \<open>\<open>&Request{}\<close>: every field has its zero value.\<close>

definition Request0 :: Request where
  "Request0 =
     \<lparr>Command = [], Key = [], Keys = [], Flags = [], Exptime = 0, Data = [], Value = 0,
      Cas = [], Noreply = False\<rparr>"

definition RealtimeMaxDelta :: int where
  "RealtimeMaxDelta = 60 * 60 * 24 * 30"

text \<open>Go's \<open>/\<close> on integers truncates towards zero.\<close>

definition quo :: "int \<Rightarrow> int \<Rightarrow> int" where
  "quo a b = sgn a * sgn b * (\<bar>a\<bar> div \<bar>b\<bar>)"

text \<open>
  The statement that follows each parse of an exptime (lines 77-81, 129-133, 225-229),
  with \<open>now\<close> the value of \<open>time.Now().Unix()\<close>:
  \<^verbatim>\<open>if req.Exptime > 0 { if req.Exptime <= RealtimeMaxDelta {
       req.Exptime = time.Now().Unix()/1e9 + req.Exptime } }\<close>
  With \<open>now\<close> a 64-bit value and the exptime at most \<open>RealtimeMaxDelta\<close>, the sum
  stays far inside the 64-bit range.
\<close>

definition normalize_Exptime :: "int \<Rightarrow> Request \<Rightarrow> Request" where
  "normalize_Exptime now req =
     (if Exptime req > 0 then
        (if Exptime req \<le> RealtimeMaxDelta
         then req\<lparr>Exptime := quo now 1000000000 + Exptime req\<rparr>
         else req)
      else req)"

text \<open>
  The memory, as \<open>make\<close> observes it: \<open>maxAlloc\<close> is the runtime's limit on the size of
  one allocation (\<open>2 ^ 48\<close> bytes on linux/amd64), \<open>available\<close> the number of bytes that
  the operating system still grants. \<open>make([]byte, n)\<close> panics with
  "makeslice: len out of range" when \<open>n\<close> is negative or above \<open>maxAlloc\<close>; for a length
  within the limit that the system does not grant, the runtime ends the process with the
  fatal error "out of memory".
\<close>

record Memory =
  maxAlloc :: nat
  available :: nat

text \<open>A 64-bit linux machine with one GiB to give, for the examples.\<close>

definition mem_1GiB :: Memory where
  "mem_1GiB = \<lparr>maxAlloc = 2 ^ 48, available = 2 ^ 30\<rparr>"

text \<open>
  The data block of a storage command (lines 89-112 and 143-165, the same statements):
  \<open>make([]byte, bytes)\<close>, then \<open>io.ReadFull\<close> and the two terminator bytes.
\<close>

definition read_data_block :: "Memory \<Rightarrow> Request \<Rightarrow> int \<Rightarrow> Reader \<Rightarrow> Request res \<times> Reader" where
  "read_data_block m req0 bytes r =
     (if bytes < 0 \<or> int (maxAlloc m) < bytes
        then (Panic ''runtime error: makeslice: len out of range'', r)
      else if int (available m) < bytes
        then (Fatal ''runtime: out of memory'', r)
      else
        let req = req0\<lparr>Data := replicate (nat bytes) (CHR 0x00)\<rparr> in
        case ReadFull r (Data req) of
          ((buf, n, Some e), r1) \<Rightarrow> (Err (IOError e), r1)
        | ((buf, n, None), r1) \<Rightarrow>
            let req = req\<lparr>Data := buf\<rparr> in
            if int n \<noteq> bytes then (Err (Error (ReadOnly (int n) bytes)), r1)
            else
              (case ReadByte r1 of
                 ((c, Some e), r2) \<Rightarrow> (Err (IOError e), r2)
               | ((c, None), r2) \<Rightarrow>
                   if c \<noteq> CR then (Err (Error ExpectedCR), r2)
                   else
                     (case ReadByte r2 of
                        ((c, Some e), r3) \<Rightarrow> (Err (IOError e), r3)
                      | ((c, None), r3) \<Rightarrow>
                          if c \<noteq> LF then (Err (Error ExpectedLF), r3)
                          else (Ok req, r3))))"

text \<open>\<open>case "set", "add", "replace", "append", "prepend"\<close>\<close>

definition read_store :: "int \<Rightarrow> Memory \<Rightarrow> string list \<Rightarrow> Reader \<Rightarrow> Request res \<times> Reader" where
  "read_store now m arr r =
     (if length arr < 5 then (Err (Error (TooFewParams (arr ! 0))), r)
      else
        let req = Request0\<lparr>Command := arr ! 0, Key := arr ! 1, Flags := arr ! 2\<rparr> in
        case ParseInt (arr ! 3) of
          Inl e \<Rightarrow> (Err (Error (CannotReadExptime e)), r)
        | Inr t \<Rightarrow>
            let req = normalize_Exptime now (req\<lparr>Exptime := t\<rparr>) in
            (case Atoi (arr ! 4) of
               Inl e \<Rightarrow> (Err (Error (CannotReadBytes e)), r)
             | Inr bytes \<Rightarrow>
                 let req = (if length arr > 5 \<and> arr ! 5 = ''noreply''
                            then req\<lparr>Noreply := True\<rparr> else req)
                 in read_data_block m req bytes r))"

text \<open>\<open>case "cas"\<close>: a byte count that does not parse is returned as \<open>Atoi\<close>'s own error.\<close>

definition read_cas :: "int \<Rightarrow> Memory \<Rightarrow> string list \<Rightarrow> Reader \<Rightarrow> Request res \<times> Reader" where
  "read_cas now m arr r =
     (if length arr < 6 then (Err (Error (TooFewParams (arr ! 0))), r)
      else
        let req = Request0\<lparr>Command := arr ! 0, Key := arr ! 1, Flags := arr ! 2\<rparr> in
        case ParseInt (arr ! 3) of
          Inl e \<Rightarrow> (Err (Error (CannotReadExptime e)), r)
        | Inr t \<Rightarrow>
            let req = normalize_Exptime now (req\<lparr>Exptime := t\<rparr>) in
            (case Atoi (arr ! 4) of
               Inl e \<Rightarrow> (Err (NumErr e), r)
             | Inr bytes \<Rightarrow>
                 let req = req\<lparr>Cas := arr ! 5\<rparr>;
                     req = (if length arr > 6 \<and> arr ! 6 = ''noreply''
                            then req\<lparr>Noreply := True\<rparr> else req)
                 in read_data_block m req bytes r))"

text \<open>\<open>case "delete"\<close>\<close>

definition parse_delete :: "string list \<Rightarrow> Request res" where
  "parse_delete arr =
     (if length arr < 2 then Err (Error (TooFewParams (arr ! 0)))
      else
        let req = Request0\<lparr>Command := arr ! 0, Keys := drop 1 arr\<rparr>;
            req = (if length arr > 2 \<and> arr ! 2 = ''noreply''
                   then req\<lparr>Noreply := True\<rparr> else req)
        in Ok req)"

text \<open>\<open>case "get", "gets"\<close>\<close>

definition parse_get :: "string list \<Rightarrow> Request res" where
  "parse_get arr =
     (if length arr < 2 then Err (Error (TooFewParams (arr ! 0)))
      else Ok (Request0\<lparr>Command := arr ! 0, Keys := drop 1 arr\<rparr>))"

text \<open>\<open>case "incr", "decr"\<close>\<close>

definition parse_incr :: "string list \<Rightarrow> Request res" where
  "parse_incr arr =
     (if length arr < 3 then Err (Error (TooFewParams (arr ! 0)))
      else
        let req = Request0\<lparr>Command := arr ! 0, Key := arr ! 1\<rparr> in
        case ParseInt (arr ! 2) of
          Inl e \<Rightarrow> Err (Error (CannotReadValue e))
        | Inr v \<Rightarrow>
            let req = req\<lparr>Value := v\<rparr>;
                req = (if length arr > 3 \<and> arr ! 3 = ''noreply''
                       then req\<lparr>Noreply := True\<rparr> else req)
            in Ok req)"

text \<open>\<open>case "touch"\<close>\<close>

definition parse_touch :: "int \<Rightarrow> string list \<Rightarrow> Request res" where
  "parse_touch now arr =
     (if length arr < 3 then Err (Error (TooFewParams (arr ! 0)))
      else
        let req = Request0\<lparr>Command := arr ! 0, Key := arr ! 1\<rparr> in
        case ParseInt (arr ! 2) of
          Inl e \<Rightarrow> Err (Error (CannotReadExptime e))
        | Inr t \<Rightarrow>
            let req = normalize_Exptime now (req\<lparr>Exptime := t\<rparr>);
                req = (if length arr > 3 \<and> arr ! 3 = ''noreply''
                       then req\<lparr>Noreply := True\<rparr> else req)
            in Ok req)"

text \<open>\<open>case "flush_all"\<close>: the delay is stored as it is parsed.\<close>

definition parse_flush_all :: "string list \<Rightarrow> Request res" where
  "parse_flush_all arr =
     (let req = Request0\<lparr>Command := arr ! 0\<rparr> in
      if length arr > 1 then
        (case ParseInt (arr ! 1) of
           Inl e \<Rightarrow> Err (Error (CannotReadDelay e))
         | Inr t \<Rightarrow> Ok (req\<lparr>Exptime := t\<rparr>))
      else Ok req)"

text \<open>\<open>case "stats"\<close>\<close>

definition parse_stats :: "string list \<Rightarrow> Request res" where
  "parse_stats arr =
     (let req = Request0\<lparr>Command := arr ! 0\<rparr> in
      if length arr > 1 then Ok (req\<lparr>Keys := drop 1 arr\<rparr>) else Ok req)"

text \<open>The labels of the first case of the switch.\<close>

definition store_verb :: "string \<Rightarrow> bool" where
  "store_verb c =
     (c = ''set'' \<or> c = ''add'' \<or> c = ''replace'' \<or> c = ''append'' \<or> c = ''prepend'')"

text \<open>
  \<open>ReadRequest\<close>, with \<open>now\<close> the reading of the clock (\<open>time.Now().Unix()\<close>) and \<open>m\<close>
  the memory at the call. The reader is returned as the call leaves it.
\<close>

definition ReadRequest :: "int \<Rightarrow> Memory \<Rightarrow> Reader \<Rightarrow> Request res \<times> Reader" where
  "ReadRequest now m r =
     (case ReadLine r of
        (Err e, r1) \<Rightarrow> (Err e, r1)
      | (Panic s, r1) \<Rightarrow> (Panic s, r1)
      | (Fatal s, r1) \<Rightarrow> (Fatal s, r1)
      | (Ok lineBytes, r1) \<Rightarrow>
          let line = lineBytes; arr = Fields line in
          if length arr < 1 then (Err (Error EmptyLine), r1)
          else if store_verb (arr ! 0) then read_store now m arr r1
          else if arr ! 0 = ''cas'' then read_cas now m arr r1
          else if arr ! 0 = ''delete'' then (parse_delete arr, r1)
          else if arr ! 0 = ''get'' \<or> arr ! 0 = ''gets'' then (parse_get arr, r1)
          else if arr ! 0 = ''incr'' \<or> arr ! 0 = ''decr'' then (parse_incr arr, r1)
          else if arr ! 0 = ''touch'' then (parse_touch now arr, r1)
          else if arr ! 0 = ''flush_all'' then (parse_flush_all arr, r1)
          else if arr ! 0 = ''version'' \<or> arr ! 0 = ''quit''
            then (Ok (Request0\<lparr>Command := arr ! 0\<rparr>), r1)
          else if arr ! 0 = ''stats'' then (parse_stats arr, r1)
          else (Err (Error (UnknownCommand (arr ! 0))), r1))"

subsection \<open>The connection server\<close>

definition RespErr :: string where
  "RespErr = ''ERROR ''"

definition RespClientErr :: string where
  "RespClientErr = ''CLIENT_ERROR ''"

definition RespServerErr :: string where
  "RespServerErr = ''SERVER_ERROR ''"

text \<open>
  \<open>HandlerFunc\<close>: a handler gets the request and the response through pointers and
  returns an error or nil. Here it returns what it leaves in both, the text of the
  error it returns (\<open>err.Error()\<close>) if any, and the new state \<open>'h\<close> of the application
  behind the handlers (the store); or it panics. The handler does not write to the
  connection that the context carries.
\<close>

datatype 'h handled = Returned 'h Request Response "string option" | Panicked

type_synonym 'h HandlerFunc = "'h \<Rightarrow> Request \<Rightarrow> Response \<Rightarrow> 'h handled"

text \<open>
  What \<open>handleConn\<close> hands to the buffered writer and flushes (the source ignores the
  results of \<open>WriteString\<close> and \<open>Flush\<close>):
  \<^item> \<open>ClientError d\<close> is \<open>RespClientErr + perr.Error() + "\r\n"\<close>, the reply to a
    protocol error with description \<open>d\<close>;
  \<^item> \<open>Reply s\<close> is the formatted response \<open>res.String()\<close>.
\<close>

datatype wire = ClientError Description | Reply bytes

record 'h Session =
  reader :: Reader
  written :: "wire list"
  app :: 'h

datatype 'h step = Continue "'h Session" | Return "'h Session" | Crash "'h Session"

text \<open>
  One pass through the body of the loop of \<open>handleConn\<close> (lines 160-193), with the
  handler registry \<open>s.methods\<close>, the reading of the clock and the memory. \<open>Return\<close> is
  every way out of the function: an error of the stream, the quit command, and a panic,
  which the deferred function recovers before it removes the connection from \<open>clients\<close>
  and closes it. \<open>Crash\<close> is the end of the process in a fatal error of the runtime. Log
  output is not modelled.
\<close>

definition handleConn_body ::
  "(string \<rightharpoonup> 'h HandlerFunc) \<Rightarrow> int \<Rightarrow> Memory \<Rightarrow> 'h Session \<Rightarrow> 'h step"
where
  "handleConn_body methods now m c =
     (case ReadRequest now m (reader c) of
        (Panic s, r) \<Rightarrow> Return (c\<lparr>reader := r\<rparr>)
      | (Fatal s, r) \<Rightarrow> Crash (c\<lparr>reader := r\<rparr>)
      | (Err (Error d), r) \<Rightarrow>
          Continue (c\<lparr>reader := r, written := written c @ [ClientError d]\<rparr>)
      | (Err (IOError e), r) \<Rightarrow> Return (c\<lparr>reader := r\<rparr>)
      | (Err (NumErr e), r) \<Rightarrow> Return (c\<lparr>reader := r\<rparr>)
      | (Ok req, r) \<Rightarrow>
          let cmd = Command req in
          if cmd = ''quit'' then Return (c\<lparr>reader := r\<rparr>)
          else
            let res = Response0 in
            (case methods cmd of
               Some fn \<Rightarrow>
                 (case fn (app c) req res of
                    Panicked \<Rightarrow> Return (c\<lparr>reader := r\<rparr>)
                  | Returned h req res err \<Rightarrow>
                      let res = (case err of
                                   Some msg \<Rightarrow> res\<lparr>Response := RespServerErr @ msg\<rparr>
                                 | None \<Rightarrow> res)
                      in if \<not> Noreply req
                         then Continue (c\<lparr>reader := r, app := h,
                                          written := written c @ [Reply (Response_String res)]\<rparr>)
                         else Continue (c\<lparr>reader := r, app := h\<rparr>))
             | None \<Rightarrow>
                 let res = res\<lparr>Response := (RespErr @ cmd) @ '' not implemented'' @ [CHR 0x27]\<rparr>
                 in Continue (c\<lparr>reader := r,
                                  written := written c @ [Reply (Response_String res)]\<rparr>)))"

text \<open>
  The loop \<open>for atomic.LoadInt32(&s.stopped) == 0\<close>. Another goroutine sets the flag:
  \<open>stopped k\<close> tells whether the \<open>k\<close>-th load finds it set, and \<open>clock k\<close> and \<open>mem k\<close>
  are the reading of the clock and the memory in the \<open>k\<close>-th pass. The result is how the
  function ends (\<open>Return\<close> with the session, or \<open>Crash\<close>), \<open>None\<close> when it never does.
\<close>

partial_function (option) handleConn ::
  "(string \<rightharpoonup> 'h HandlerFunc) \<Rightarrow> (nat \<Rightarrow> bool) \<Rightarrow> (nat \<Rightarrow> int) \<Rightarrow> (nat \<Rightarrow> Memory) \<Rightarrow>
     nat \<Rightarrow> 'h Session \<Rightarrow> 'h step option"
where
  "handleConn methods stopped clock mem k c =
     (if stopped k then Some (Return c)
      else
        (case handleConn_body methods (clock k) (mem k) c of
           Continue c' \<Rightarrow> handleConn methods stopped clock mem (Suc k) c'
         | Return c' \<Rightarrow> Some (Return c')
         | Crash c' \<Rightarrow> Some (Crash c')))"

subsection \<open>Stop\<close>

text \<open>
  The listener, as far as \<open>Stop\<close> observes it: \<open>Close\<close> on a listener that is open
  closes it and returns nil; on one that is closed already (the accept loop closes it
  when it returns) it returns the network's error.
\<close>

record Listener =
  ln_closed :: bool

definition Listener_Close :: "Listener \<Rightarrow> io_error option \<times> Listener" where
  "Listener_Close l =
     (if ln_closed l then (Some (NetError ''use of closed network connection''), l)
      else (None, l\<lparr>ln_closed := True\<rparr>))"

text \<open>
  The server: the address, the listener (\<open>None\<close> is nil), the connections registered in
  \<open>clients\<close> (by a number each; \<open>Range\<close> visits them in no specified order, here the
  order of the list) and the flag \<open>stopped\<close>. The registry \<open>methods\<close>, which \<open>Stop\<close> does
  not touch, is the first argument of \<open>handleConn\<close>.
\<close>

record Server =
  addr :: string
  ln :: "Listener option"
  clients :: "nat list"
  stopped :: int

text \<open>
  What \<open>Stop\<close> does to the world, in order: closing the listener, the sleep of 200
  milliseconds, closing a connection, and the loop at the end, which reads \<open>clients\<close>
  and the clock until more than a second has passed and changes nothing.
\<close>

datatype action = CloseListener | Sleep nat | CloseConn nat | WaitOneSecond

definition drainConn :: "Server \<Rightarrow> action list" where
  "drainConn s = map CloseConn (clients s)"

text \<open>
  \<open>Stop\<close> returns its error (\<open>None\<close> is nil), what it did, and the server afterwards.
  \<open>atomic.CompareAndSwapInt32(&s.stopped, 0, 1)\<close> is the first test. Print output is
  not modelled.
\<close>

definition Stop :: "Server \<Rightarrow> (io_error option \<times> action list) \<times> Server" where
  "Stop s0 =
     (if stopped s0 \<noteq> 0 then ((None, []), s0)
      else
        let s = s0\<lparr>stopped := 1\<rparr> in
        case ln s of
          None \<Rightarrow> ((None, []), s)
        | Some l \<Rightarrow>
            let (err, l') = Listener_Close l;
                s = s\<lparr>ln := Some l'\<rparr>
            in ((err, [CloseListener, Sleep 200] @ drainConn s @ [WaitOneSecond]), s))"

subsection \<open>The wire grammar of a response, in the specification's words\<close>

text \<open>
  One block per value: the header line \<open>VALUE <key> <flags> <length>\<close>, with the CAS
  token after it when there is one, \<open>\r\n\<close>, the payload, \<open>\r\n\<close>. A response is its
  blocks in the order of the list, the status line and \<open>\r\n\<close>.
\<close>

definition value_block :: "Value \<Rightarrow> bytes" where
  "value_block v =
     ''VALUE '' @ Value.Key v @ '' '' @ Value.Flags v @ '' '' @ Itoa (int (length (Value.Data v))) @
     (if Value.Cas v = [] then [] else '' '' @ Value.Cas v) @ [CHR 0x0D, CHR 0x0A] @
     Value.Data v @ [CHR 0x0D, CHR 0x0A]"

definition wire_format :: "Response \<Rightarrow> bytes" where
  "wire_format r = concat (map value_block (Values r)) @ Response r @ [CHR 0x0D, CHR 0x0A]"

section \<open>Properties\<close>

subsection \<open>Evaluation\<close>

text \<open>The definitions that running the parser on a concrete input unfolds.\<close>

lemmas run_defs =
  ReadRequest_def store_verb_def ReadLine_def ReadFull_def ReadByte_def NewReader_def NewReaderSize_def
  Fields_def flush_field_def ascii_space_def
  ParseInt_def ParseUint_def Atoi_def is_digit_def digit_val_def
  read_store_def read_cas_def read_data_block_def normalize_Exptime_def RealtimeMaxDelta_def quo_def
  parse_delete_def parse_get_def parse_incr_def parse_touch_def parse_flush_all_def parse_stats_def
  Request0_def mem_1GiB_def CRLF_def CR_def LF_def Let_def


subsection \<open>The line reader and the clock\<close>

text \<open>
  A line that ends in \<open>\r\n\<close> and fits the buffer with its carriage return is what
  \<open>ReadLine\<close> returns; the reader is left after the line feed.
\<close>

lemma ReadLine_CRLF:
  assumes "rd_data r = l @ CR # LF # rest" and "LF \<notin> set l" and "length l + 1 < rd_size r"
  shows "ReadLine r = (Ok l, r\<lparr>rd_data := rest\<rparr>)"
proof -
  have "CR \<noteq> LF"
    by (simp add: CR_def LF_def)
  moreover from assms(2) have "\<And>x. x \<in> set l \<Longrightarrow> x \<noteq> LF"
    by blast
  ultimately have tw: "takeWhile (\<lambda>c. c \<noteq> LF) (l @ CR # LF # rest) = l @ [CR]"
    by (simp add: takeWhile_append2)
  with assms show ?thesis
    by (simp add: ReadLine_def Let_def)
qed

text \<open>
  With the clock and the parsed exptime in the signed 64-bit range, the exptime that the
  parser stores is in that range: the addition does not overflow.
\<close>

lemma quo_bounds:
  assumes "- (2 ^ 63) \<le> now" and "now < 2 ^ 63"
  shows "- 9223372036 \<le> quo now 1000000000 \<and> quo now 1000000000 \<le> 9223372036"
proof (cases "0 \<le> now")
  case True
  then have "quo now 1000000000 = now div 1000000000"
    by (cases "now = 0") (simp_all add: quo_def sgn_if)
  moreover from True assms have "0 \<le> now div 1000000000 \<and> now div 1000000000 \<le> 9223372036"
    using zdiv_mono1 [of now 9223372036854775807 1000000000]
    by (simp add: pos_imp_zdiv_nonneg_iff)
  ultimately show ?thesis by simp
next
  case False
  then have "quo now 1000000000 = - ((- now) div 1000000000)"
    by (simp add: quo_def sgn_if)
  moreover from False assms have "0 \<le> (- now) div 1000000000 \<and> (- now) div 1000000000 \<le> 9223372036"
    using zdiv_mono1 [of "- now" 9223372036854775808 1000000000]
    by (simp add: pos_imp_zdiv_nonneg_iff)
  ultimately show ?thesis by simp
qed

lemma normalize_Exptime_in_range:
  assumes "- (2 ^ 63) \<le> now" and "now < 2 ^ 63"
      and "- (2 ^ 63) \<le> Exptime req" and "Exptime req < 2 ^ 63"
  shows "- (2 ^ 63) \<le> Exptime (normalize_Exptime now req) \<and>
         Exptime (normalize_Exptime now req) < 2 ^ 63"
  using assms quo_bounds [of now]
  by (simp add: normalize_Exptime_def RealtimeMaxDelta_def)

subsection \<open>The data block\<close>

lemma drop_eq_ConsD: "drop n d = c # cs \<Longrightarrow> n < length d \<and> d ! n = c \<and> drop (Suc n) d = cs"
  by (metis Cons_nth_drop_Suc drop_eq_Nil2 leI list.distinct(1) list.inject)


lemma read_data_block_OkD:
  assumes "read_data_block m req n r = (Ok req', r')"
  shows "0 \<le> n \<and> n \<le> int (maxAlloc m) \<and> n \<le> int (available m) \<and>
         (\<exists>p rest. length p = nat n \<and> rd_data r = p @ CR # LF # rest \<and>
                    req' = req\<lparr>Data := p\<rparr> \<and> r' = r\<lparr>rd_data := rest\<rparr>)"
proof -
  let ?d = "rd_data r"
  from assms have n0: "0 \<le> n" and al: "n \<le> int (maxAlloc m)" "n \<le> int (available m)"
    by (auto simp: read_data_block_def split: if_splits)
  from assms n0 al have len: "nat n \<le> length ?d"
    by (auto simp: read_data_block_def ReadFull_def Let_def split: if_splits)
  from assms n0 al len obtain c1 cs1 where d1: "drop (nat n) ?d = c1 # cs1"
    by (cases "drop (nat n) ?d")
      (auto simp: read_data_block_def ReadFull_def ReadByte_def Let_def split: if_splits)
  from assms n0 al len d1 have c1: "c1 = CR"
    by (auto simp: read_data_block_def ReadFull_def ReadByte_def Let_def
          split: if_splits list.splits)
  from assms n0 al len d1 c1 obtain c2 cs2 where d2: "cs1 = c2 # cs2"
    by (cases cs1)
      (auto simp: read_data_block_def ReadFull_def ReadByte_def Let_def split: if_splits)
  from assms n0 al len d1 c1 d2 have c2: "c2 = LF" and r': "r' = r\<lparr>rd_data := cs2\<rparr>"
    and req': "req' = req\<lparr>Data := take (nat n) ?d\<rparr>"
    by (auto simp: read_data_block_def ReadFull_def ReadByte_def Let_def split: if_splits)
  have "take (nat n) ?d @ CR # LF # cs2 = take (nat n) ?d @ drop (nat n) ?d"
    using d1 c1 d2 c2 by simp
  then have whole: "?d = take (nat n) ?d @ CR # LF # cs2"
    by simp
  have "length (take (nat n) ?d) = nat n"
    using len by simp
  with whole req' r' n0 al show ?thesis
    by blast
qed

text \<open>The two ways in which \<open>make\<close> does not return.\<close>

lemma read_data_block_panic:
  "n < 0 \<or> int (maxAlloc m) < n \<Longrightarrow>
   read_data_block m req n r = (Panic ''runtime error: makeslice: len out of range'', r)"
  by (auto simp: read_data_block_def)

lemma read_data_block_fatal:
  "0 \<le> n \<Longrightarrow> n \<le> int (maxAlloc m) \<Longrightarrow> int (available m) < n \<Longrightarrow>
   read_data_block m req n r = (Fatal ''runtime: out of memory'', r)"
  by (simp add: read_data_block_def)

lemma read_data_block_short:
  assumes "0 \<le> n" "length (rd_data r) < nat n"
      and "n \<le> int (maxAlloc m)" "n \<le> int (available m)"
  shows "read_data_block m req n r =
           (Err (IOError (if rd_data r \<noteq> [] \<and> rd_err r = EOF then ErrUnexpectedEOF
                          else rd_err r)),
            r\<lparr>rd_data := []\<rparr>)"
  using assms by (simp add: read_data_block_def ReadFull_def Let_def)

lemma read_data_block_no_terminator:
  assumes "0 \<le> n" "length (rd_data r) = nat n"
      and "n \<le> int (maxAlloc m)" "n \<le> int (available m)"
  shows "read_data_block m req n r = (Err (IOError (rd_err r)), r\<lparr>rd_data := []\<rparr>)"
  using assms by (simp add: read_data_block_def ReadFull_def ReadByte_def Let_def)

lemma read_data_block_not_CR:
  assumes "0 \<le> n" "nat n < length (rd_data r)" "rd_data r ! nat n \<noteq> CR"
      and "n \<le> int (maxAlloc m)" "n \<le> int (available m)"
  shows "read_data_block m req n r =
           (Err (Error ExpectedCR), r\<lparr>rd_data := drop (Suc (nat n)) (rd_data r)\<rparr>)"
proof -
  from assms(2) have
    "drop (nat n) (rd_data r) = rd_data r ! nat n # drop (Suc (nat n)) (rd_data r)"
    by (simp add: Cons_nth_drop_Suc)
  with assms show ?thesis
    by (simp add: read_data_block_def ReadFull_def ReadByte_def Let_def)
qed

lemma read_data_block_half_terminator:
  assumes "0 \<le> n" "length (rd_data r) = Suc (nat n)" "rd_data r ! nat n = CR"
      and "n \<le> int (maxAlloc m)" "n \<le> int (available m)"
  shows "read_data_block m req n r = (Err (IOError (rd_err r)), r\<lparr>rd_data := []\<rparr>)"
proof -
  from assms(2) have
    "drop (nat n) (rd_data r) = rd_data r ! nat n # drop (Suc (nat n)) (rd_data r)"
    by (metis Cons_nth_drop_Suc lessI)
  with assms show ?thesis
    by (simp add: read_data_block_def ReadFull_def ReadByte_def Let_def)
qed

lemma read_data_block_not_LF:
  assumes "0 \<le> n" "Suc (nat n) < length (rd_data r)" "rd_data r ! nat n = CR"
      and "rd_data r ! Suc (nat n) \<noteq> LF"
      and "n \<le> int (maxAlloc m)" "n \<le> int (available m)"
  shows "read_data_block m req n r =
           (Err (Error ExpectedLF),
            r\<lparr>rd_data := drop (Suc (Suc (nat n))) (rd_data r)\<rparr>)"
proof -
  from assms(2) have
    "drop (nat n) (rd_data r) = rd_data r ! nat n # drop (Suc (nat n)) (rd_data r)"
    by (simp add: Cons_nth_drop_Suc)
  moreover from assms(2) have
    "drop (Suc (nat n)) (rd_data r) =
       rd_data r ! Suc (nat n) # drop (Suc (Suc (nat n))) (rd_data r)"
    by (simp add: Cons_nth_drop_Suc)
  ultimately show ?thesis using assms
    by (simp add: read_data_block_def ReadFull_def ReadByte_def Let_def)
qed

subsection \<open>The storage commands\<close>

lemma normalize_Exptime_eq:
  "normalize_Exptime now req =
     req\<lparr>Exptime := (if 0 < Exptime req \<and> Exptime req \<le> RealtimeMaxDelta
                     then quo now 1000000000 + Exptime req else Exptime req)\<rparr>"
  by (simp add: normalize_Exptime_def)

lemma read_store_eq:
  assumes "5 \<le> length arr" "ParseInt (arr ! 3) = Inr t" "Atoi (arr ! 4) = Inr n"
  shows "read_store now m arr r =
           read_data_block m
             \<lparr>Command = arr ! 0, Key = arr ! 1, Keys = [], Flags = arr ! 2,
              Exptime = (if 0 < t \<and> t \<le> RealtimeMaxDelta then quo now 1000000000 + t else t),
              Data = [], Value = 0, Cas = [],
              Noreply = (5 < length arr \<and> arr ! 5 = ''noreply'')\<rparr> n r"
  using assms by (simp add: read_store_def normalize_Exptime_eq Request0_def Let_def)

lemma read_cas_eq:
  assumes "6 \<le> length arr" "ParseInt (arr ! 3) = Inr t" "Atoi (arr ! 4) = Inr n"
  shows "read_cas now m arr r =
           read_data_block m
             \<lparr>Command = arr ! 0, Key = arr ! 1, Keys = [], Flags = arr ! 2,
              Exptime = (if 0 < t \<and> t \<le> RealtimeMaxDelta then quo now 1000000000 + t else t),
              Data = [], Value = 0, Cas = arr ! 5,
              Noreply = (6 < length arr \<and> arr ! 6 = ''noreply'')\<rparr> n r"
  using assms by (simp add: read_cas_def normalize_Exptime_eq Request0_def Let_def)

lemma read_store_OkD:
  assumes "read_store now m arr r = (Ok req, r')"
  shows "5 \<le> length arr \<and> (\<exists>t n. ParseInt (arr ! 3) = Inr t \<and> Atoi (arr ! 4) = Inr n)"
  using assms by (auto simp: read_store_def Let_def split: if_splits sum.splits)

lemma read_cas_OkD:
  assumes "read_cas now m arr r = (Ok req, r')"
  shows "6 \<le> length arr \<and> (\<exists>t n. ParseInt (arr ! 3) = Inr t \<and> Atoi (arr ! 4) = Inr n)"
  using assms by (auto simp: read_cas_def Let_def split: if_splits sum.splits)

lemma ReadRequest_store:
  assumes "ReadLine r = (Ok line, r1)" "Fields line = arr" "arr \<noteq> []" "store_verb (arr ! 0)"
  shows "ReadRequest now m r = read_store now m arr r1"
  using assms by (simp add: ReadRequest_def)

lemma ReadRequest_cas:
  assumes "ReadLine r = (Ok line, r1)" "Fields line = arr" "arr \<noteq> []" "arr ! 0 = ''cas''"
  shows "ReadRequest now m r = read_cas now m arr r1"
  using assms by (simp add: ReadRequest_def store_verb_def)

text \<open>The two storage branches as one: the number of fields they require differs.\<close>

lemma ReadRequest_storage_eq:
  assumes "ReadLine r = (Ok line, r1)" "Fields line = arr" "arr \<noteq> []"
      and "store_verb (arr ! 0) \<or> arr ! 0 = ''cas''"
      and "(if arr ! 0 = ''cas'' then 6 else 5) \<le> length arr"
      and "ParseInt (arr ! 3) = Inr t" "Atoi (arr ! 4) = Inr n"
  shows "\<exists>req0. ReadRequest now m r = read_data_block m req0 n r1"
proof (cases "arr ! 0 = ''cas''")
  case True
  with assms show ?thesis
    using ReadRequest_cas [of r line r1 arr now m] read_cas_eq [of arr t n now m r1] by auto
next
  case False
  with assms show ?thesis
    using ReadRequest_store [of r line r1 arr now m] read_store_eq [of arr t n now m r1] by auto
qed

lemma ReadRequest_storage_OkD:
  assumes "ReadLine r = (Ok line, r1)" "Fields line = arr" "arr \<noteq> []"
      and "store_verb (arr ! 0) \<or> arr ! 0 = ''cas''"
      and "ReadRequest now m r = (Ok req, r')"
  shows "\<exists>t n req0. (if arr ! 0 = ''cas'' then 6 else 5) \<le> length arr \<and>
           ParseInt (arr ! 3) = Inr t \<and> Atoi (arr ! 4) = Inr n \<and>
           read_data_block m req0 n r1 = (Ok req, r')"
proof (cases "arr ! 0 = ''cas''")
  case True
  with assms have c: "read_cas now m arr r1 = (Ok req, r')"
    using ReadRequest_cas [of r line r1 arr now m] by simp
  from read_cas_OkD [OF c] obtain t n where
    h: "6 \<le> length arr" "ParseInt (arr ! 3) = Inr t" "Atoi (arr ! 4) = Inr n" by blast
  from c read_cas_eq [OF h, of now m r1] True h show ?thesis by auto
next
  case False
  with assms have c: "read_store now m arr r1 = (Ok req, r')"
    using ReadRequest_store [of r line r1 arr now m] by simp
  from read_store_OkD [OF c] obtain t n where
    h: "5 \<le> length arr" "ParseInt (arr ! 3) = Inr t" "Atoi (arr ! 4) = Inr n" by blast
  from c read_store_eq [OF h, of now m r1] False h show ?thesis by auto
qed


text \<open>
  The data block of a write-family or cas request line (\<open>arr\<close> are its fields, \<open>r1\<close>
  the reader after the line). Whenever \<open>ReadRequest\<close> succeeds, the length of \<open>Data\<close> is
  the declared byte count and the stream held \<open>Data\<close>, then \<open>\r\n\<close>, then what is left.
  When the line is accepted with a byte count \<open>n\<close> that \<open>make\<close> can serve: a byte other
  than \<open>\r\<close> after the payload, or other than \<open>\n\<close> after that, is a protocol error;
  a stream that fails within the payload or the terminator is a transport error. When
  \<open>make\<close> cannot serve it, the call panics or the process ends.
\<close>

lemma data_block_outcomes:
  assumes line: "ReadLine r = (Ok line, r1)" "Fields line = arr"
      and verb: "arr \<noteq> []" "store_verb (arr ! 0) \<or> arr ! 0 = ''cas''"
  shows "(\<forall>req r'. ReadRequest now m r = (Ok req, r') \<longrightarrow>
            Atoi (arr ! 4) = Inr (int (length (Data req))) \<and>
            rd_data r1 = Data req @ CRLF @ rd_data r') \<and>
         (\<forall>t n. (if arr ! 0 = ''cas'' then 6 else 5) \<le> length arr \<and>
                 ParseInt (arr ! 3) = Inr t \<and> Atoi (arr ! 4) = Inr (int n) \<longrightarrow>
            (n \<le> maxAlloc m \<and> n \<le> available m \<and>
             n < length (rd_data r1) \<and> rd_data r1 ! n \<noteq> CR \<longrightarrow>
               fst (ReadRequest now m r) = Err (Error ExpectedCR)) \<and>
            (n \<le> maxAlloc m \<and> n \<le> available m \<and>
             Suc n < length (rd_data r1) \<and> rd_data r1 ! n = CR \<and> rd_data r1 ! Suc n \<noteq> LF \<longrightarrow>
               fst (ReadRequest now m r) = Err (Error ExpectedLF)) \<and>
            (n \<le> maxAlloc m \<and> n \<le> available m \<and>
             (length (rd_data r1) \<le> n \<or> (length (rd_data r1) = Suc n \<and> rd_data r1 ! n = CR)) \<longrightarrow>
               (\<exists>e. fst (ReadRequest now m r) = Err (IOError e))) \<and>
            (maxAlloc m < n \<longrightarrow>
               fst (ReadRequest now m r) = Panic ''runtime error: makeslice: len out of range'') \<and>
            (n \<le> maxAlloc m \<and> available m < n \<longrightarrow>
               fst (ReadRequest now m r) = Fatal ''runtime: out of memory''))"
proof (intro conjI allI impI)
  fix req r'
  assume ok: "ReadRequest now m r = (Ok req, r')"
  from ReadRequest_storage_OkD [OF line verb ok] obtain t n req0 where
    n: "Atoi (arr ! 4) = Inr n" and blk: "read_data_block m req0 n r1 = (Ok req, r')"
    by blast
  from read_data_block_OkD [OF blk] obtain p rest where
    "0 \<le> n" "length p = nat n" "rd_data r1 = p @ CR # LF # rest"
    "req = req0\<lparr>Data := p\<rparr>" "r' = r1\<lparr>rd_data := rest\<rparr>"
    by blast
  with n show "Atoi (arr ! 4) = Inr (int (length (Data req)))"
    by simp
  from \<open>rd_data r1 = p @ CR # LF # rest\<close> \<open>req = req0\<lparr>Data := p\<rparr>\<close>
    \<open>r' = r1\<lparr>rd_data := rest\<rparr>\<close>
  show "rd_data r1 = Data req @ CRLF @ rd_data r'"
    by (simp add: CRLF_def)
next
  fix t n
  assume h: "(if arr ! 0 = ''cas'' then 6 else 5) \<le> length arr \<and>
             ParseInt (arr ! 3) = Inr t \<and> Atoi (arr ! 4) = Inr (int n)"
    and c: "n \<le> maxAlloc m \<and> n \<le> available m \<and>
            n < length (rd_data r1) \<and> rd_data r1 ! n \<noteq> CR"
  from h obtain req0 where "ReadRequest now m r = read_data_block m req0 (int n) r1"
    using ReadRequest_storage_eq [OF line verb, of t "int n" now m] by blast
  with c show "fst (ReadRequest now m r) = Err (Error ExpectedCR)"
    using read_data_block_not_CR [where n = "int n" and r = r1 and m = m and req = req0]
    by simp
next
  fix t n
  assume h: "(if arr ! 0 = ''cas'' then 6 else 5) \<le> length arr \<and>
             ParseInt (arr ! 3) = Inr t \<and> Atoi (arr ! 4) = Inr (int n)"
    and c: "n \<le> maxAlloc m \<and> n \<le> available m \<and>
            Suc n < length (rd_data r1) \<and> rd_data r1 ! n = CR \<and> rd_data r1 ! Suc n \<noteq> LF"
  from h obtain req0 where "ReadRequest now m r = read_data_block m req0 (int n) r1"
    using ReadRequest_storage_eq [OF line verb, of t "int n" now m] by blast
  with c show "fst (ReadRequest now m r) = Err (Error ExpectedLF)"
    using read_data_block_not_LF [where n = "int n" and r = r1 and m = m and req = req0]
    by simp
next
  fix t n
  assume h: "(if arr ! 0 = ''cas'' then 6 else 5) \<le> length arr \<and>
             ParseInt (arr ! 3) = Inr t \<and> Atoi (arr ! 4) = Inr (int n)"
    and c: "n \<le> maxAlloc m \<and> n \<le> available m \<and>
            (length (rd_data r1) \<le> n \<or> (length (rd_data r1) = Suc n \<and> rd_data r1 ! n = CR))"
  from h obtain req0 where eq: "ReadRequest now m r = read_data_block m req0 (int n) r1"
    using ReadRequest_storage_eq [OF line verb, of t "int n" now m] by blast
  from c have al: "int n \<le> int (maxAlloc m)" "int n \<le> int (available m)"
    by simp_all
  from c consider "length (rd_data r1) < n" | "length (rd_data r1) = n"
    | "length (rd_data r1) = Suc n \<and> rd_data r1 ! n = CR"
    by linarith
  then show "\<exists>e. fst (ReadRequest now m r) = Err (IOError e)"
  proof cases
    case 1
    then show ?thesis
      using eq al read_data_block_short [where n = "int n" and r = r1 and m = m and req = req0]
      by simp
  next
    case 2
    then show ?thesis
      using eq al
        read_data_block_no_terminator [where n = "int n" and r = r1 and m = m and req = req0]
      by simp
  next
    case 3
    then show ?thesis
      using eq al
        read_data_block_half_terminator [where n = "int n" and r = r1 and m = m and req = req0]
      by simp
  qed
next
  fix t n
  assume h: "(if arr ! 0 = ''cas'' then 6 else 5) \<le> length arr \<and>
             ParseInt (arr ! 3) = Inr t \<and> Atoi (arr ! 4) = Inr (int n)"
    and c: "maxAlloc m < n"
  from h obtain req0 where "ReadRequest now m r = read_data_block m req0 (int n) r1"
    using ReadRequest_storage_eq [OF line verb, of t "int n" now m] by blast
  with c show "fst (ReadRequest now m r) = Panic ''runtime error: makeslice: len out of range''"
    using read_data_block_panic [of "int n" m req0 r1] by simp
next
  fix t n
  assume h: "(if arr ! 0 = ''cas'' then 6 else 5) \<le> length arr \<and>
             ParseInt (arr ! 3) = Inr t \<and> Atoi (arr ! 4) = Inr (int n)"
    and c: "n \<le> maxAlloc m \<and> available m < n"
  from h obtain req0 where "ReadRequest now m r = read_data_block m req0 (int n) r1"
    using ReadRequest_storage_eq [OF line verb, of t "int n" now m] by blast
  with c show "fst (ReadRequest now m r) = Fatal ''runtime: out of memory''"
    using read_data_block_fatal [of "int n" m req0 r1] by simp
qed

text \<open>
  C1, where the code departs from it. A request that parses carries exactly the
  declared number of bytes, and the terminators and the failures of the stream are
  told apart as the claim says once the buffer is made (\<open>data_block_outcomes\<close>). But the
  declared byte count goes to \<open>make\<close> unchecked (lines 89, 143), before any byte of the
  payload is read. On a stream that ends after two bytes of payload, the count
  9223372036854775807 panics, and the count 2147483648 ends the process where one GiB
  is to be had; the claim has a transport error there, as the count 10 gives.
\<close>

theorem unchecked_byte_count_outcomes:
  "fst (ReadRequest 0 mem_1GiB
          (NewReader (''set k 0 0 9223372036854775807'' @ CRLF @ ''ab'' @ CRLF) EOF)) =
     Panic ''runtime error: makeslice: len out of range'' \<and>
   fst (ReadRequest 0 mem_1GiB
          (NewReader (''cas k 0 0 9223372036854775807 u'' @ CRLF @ ''ab'' @ CRLF) EOF)) =
     Panic ''runtime error: makeslice: len out of range'' \<and>
   fst (ReadRequest 0 mem_1GiB
          (NewReader (''set k 0 0 2147483648'' @ CRLF @ ''ab'' @ CRLF) EOF)) =
     Fatal ''runtime: out of memory'' \<and>
   fst (ReadRequest 0 mem_1GiB
          (NewReader (''set k 0 0 10'' @ CRLF @ ''ab'' @ CRLF) EOF)) =
     Err (IOError ErrUnexpectedEOF)"
  by (simp add: run_defs)

subsection \<open>The response formatter\<close>

lemma write_Value_eq: "write_Value b v = b @ value_block v"
  by (simp add: write_Value_def value_block_def CRLF_def CR_def LF_def Let_def)

lemma write_Values_eq: "write_Values b vs = b @ concat (map value_block vs)"
  by (induction vs arbitrary: b) (simp_all add: write_Value_eq)

text \<open>
  C4. \<open>Response.String\<close> writes the wire grammar: for each value in the order of the
  list the header line (with the CAS token only when it is not empty), the payload and
  the terminators, then the status line. The empty response is the two bytes \<open>\r\n\<close>,
  and the scenarios of the specification come out byte for byte. The function is total.
\<close>

theorem Response_String_wire_format:
  "Response_String r = wire_format r \<and>
   Response_String \<lparr>Response = [], Values = []\<rparr> = [CHR 0x0D, CHR 0x0A] \<and>
   Response_String \<lparr>Response = ''END'', Values = []\<rparr> = ''END'' @ [CHR 0x0D, CHR 0x0A] \<and>
   Response_String
     \<lparr>Response = ''END'',
      Values = [\<lparr>Value.Key = ''k1'', Flags = ''f1'', Data = ''123'', Cas = []\<rparr>,
                \<lparr>Value.Key = ''k2'', Flags = ''f2'', Data = ''456'', Cas = []\<rparr>]\<rparr> =
     ''VALUE k1 f1 3'' @ [CHR 0x0D, CHR 0x0A] @ ''123'' @ [CHR 0x0D, CHR 0x0A] @
     ''VALUE k2 f2 3'' @ [CHR 0x0D, CHR 0x0A] @ ''456'' @ [CHR 0x0D, CHR 0x0A] @
     ''END'' @ [CHR 0x0D, CHR 0x0A]"
proof -
  have general: "Response_String r = wire_format r" for r
    by (simp add: Response_String_def wire_format_def write_Values_eq CRLF_def CR_def LF_def Let_def)
  have three: "Itoa 3 = ''3''"
    by (simp add: Itoa_def format_dec.simps digit_char_def)
  show ?thesis
    by (simp add: general wire_format_def value_block_def three)
qed

subsection \<open>Each branch of the switch on a well-formed line\<close>

lemma ReadRequest_branch:
  assumes "ReadLine r = (Ok line, r1)" "Fields line = arr" "arr \<noteq> []"
  shows "ReadRequest now m r =
           (if store_verb (arr ! 0) then read_store now m arr r1
            else if arr ! 0 = ''cas'' then read_cas now m arr r1
            else if arr ! 0 = ''delete'' then (parse_delete arr, r1)
            else if arr ! 0 = ''get'' \<or> arr ! 0 = ''gets'' then (parse_get arr, r1)
            else if arr ! 0 = ''incr'' \<or> arr ! 0 = ''decr'' then (parse_incr arr, r1)
            else if arr ! 0 = ''touch'' then (parse_touch now arr, r1)
            else if arr ! 0 = ''flush_all'' then (parse_flush_all arr, r1)
            else if arr ! 0 = ''version'' \<or> arr ! 0 = ''quit''
              then (Ok (Request0\<lparr>Command := arr ! 0\<rparr>), r1)
            else if arr ! 0 = ''stats'' then (parse_stats arr, r1)
            else (Err (Error (UnknownCommand (arr ! 0))), r1))"
  using assms by (simp add: ReadRequest_def)

lemma noreply_slot: "(n < length (xs @ rest) \<and> (xs @ rest) ! n = s) = (take 1 rest = [s])" if "length xs = n"
  using that by (cases rest) (auto simp: nth_append)



lemma ReadRequest_delete_Ok:
  assumes "ReadLine r = (Ok line, r1)" "Fields line = ''delete'' # key # rest"
  shows "ReadRequest now m r =
           (Ok \<lparr>Command = ''delete'', Key = [], Keys = key # rest, Flags = [], Exptime = 0,
                Data = [], Value = 0, Cas = [], Noreply = (take 1 rest = [''noreply''])\<rparr>, r1)"
proof -
  have "(2 < length (''delete'' # key # rest) \<and> (''delete'' # key # rest) ! 2 = ''noreply'') =
        (take 1 rest = [''noreply''])"
    by (cases rest) auto
  with assms show ?thesis
    by (simp add: ReadRequest_branch store_verb_def parse_delete_def Request0_def Let_def)
qed







subsection \<open>The exptime of a parsed request\<close>





text \<open>
  C8, as the code has it. A delete line with at least one key parses, and every token
  after the verb is a key. The no-reply flag is set exactly when the token right after
  the first key is \<open>noreply\<close>: the test is on the third field, not on the last one.
\<close>

theorem delete_keys_and_noreply:
  assumes "ReadLine r = (Ok line, r1)" and "Fields line = ''delete'' # key # rest"
  shows "\<exists>req. ReadRequest now m r = (Ok req, r1) \<and> Command req = ''delete'' \<and>
               Keys req = key # rest \<and>
               Noreply req = (rest \<noteq> [] \<and> hd rest = ''noreply'')"
proof -
  have "(take 1 rest = [''noreply'']) = (rest \<noteq> [] \<and> hd rest = ''noreply'')"
    by (cases rest) auto
  with ReadRequest_delete_Ok [OF assms, of now m] show ?thesis
    by simp
qed

theorem delete_keys_and_noreply_witness:
  "\<exists>req. ReadRequest 0 mem_1GiB (NewReader (''delete a noreply b'' @ CRLF) EOF) = (Ok req, NewReader [] EOF) \<and>
         Command req = ''delete'' \<and> Keys req = [''a'', ''noreply'', ''b''] \<and> Noreply req = True"
proof -
  have l: "ReadLine (NewReader (''delete a noreply b'' @ CRLF) EOF) = (Ok ''delete a noreply b'', NewReader [] EOF)"
    by (simp add: run_defs)
  have f: "Fields ''delete a noreply b'' = ''delete'' # ''a'' # [''noreply'', ''b'']"
    by (simp add: run_defs)
  from delete_keys_and_noreply [OF l f, of 0 mem_1GiB] show ?thesis
    by simp
qed

text \<open>
  The claim as stated fails on a line with two keys whose last token is \<open>noreply\<close>:
  the request is parsed with the flag not set.
\<close>

theorem delete_noreply_counterexample:
  "\<exists>req r'. ReadRequest 0 mem_1GiB (NewReader (''delete a b noreply'' @ CRLF) EOF) = (Ok req, r') \<and>
            last (Fields ''delete a b noreply'') = ''noreply'' \<and>
            Keys req = [''a'', ''b'', ''noreply''] \<and> Noreply req = False"
  by (simp add: run_defs)











subsection \<open>The byte count of a storage command\<close>

text \<open>
  C3, where the code departs from it. A negative byte count passes \<open>Atoi\<close> and
  reaches \<open>make([]byte, bytes)\<close>, which panics: the call does not return an error. In
  the cas branch a byte count that is no number comes back as \<open>Atoi\<close>'s
  \<open>*strconv.NumError\<close>, which is not the protocol error; the write-family branch wraps
  the same failure in one.
\<close>

theorem bad_byte_count_outcomes:
  "fst (ReadRequest 0 mem_1GiB (NewReader (''set k 0 0 -1'' @ CRLF) EOF)) =
     Panic ''runtime error: makeslice: len out of range'' \<and>
   fst (ReadRequest 0 mem_1GiB (NewReader (''cas k 0 0 -1 u'' @ CRLF) EOF)) =
     Panic ''runtime error: makeslice: len out of range'' \<and>
   fst (ReadRequest 0 mem_1GiB (NewReader (''cas k 0 0 abc u'' @ CRLF) EOF)) =
     Err (NumErr (NumError ''Atoi'' ''abc'' ErrSyntax)) \<and>
   \<not> is_ProtocolError (NumErr (NumError ''Atoi'' ''abc'' ErrSyntax)) \<and>
   fst (ReadRequest 0 mem_1GiB (NewReader (''set k 0 0 abc'' @ CRLF) EOF)) =
     Err (Error (CannotReadBytes (NumError ''Atoi'' ''abc'' ErrSyntax)))"
  by (simp add: run_defs)

subsection \<open>The loop of a connection\<close>

lemma Response_String_eq:
  "Response_String res = concat (map value_block (Values res)) @ Response res @ CRLF"
  by (simp add: Response_String_def write_Values_eq Let_def)

text \<open>
  C6, where the code departs from it. With a handler registered for the verb the reply
  is written exactly when the no-reply flag is not set. With none registered the
  "not implemented" reply is written whatever the flag says: here for
  \<open>delete k noreply\<close>, which parses with the flag set.
\<close>

theorem not_implemented_ignores_noreply:
  "fst (ReadRequest 0 mem_1GiB (NewReaderSize (''delete k noreply'' @ CRLF) EOF 16384)) =
     Ok \<lparr>Command = ''delete'', Key = [], Keys = [''k'', ''noreply''], Flags = [], Exptime = 0,
         Data = [], Value = 0, Cas = [], Noreply = True\<rparr> \<and>
   handleConn_body Map.empty 0 mem_1GiB
     \<lparr>reader = NewReaderSize (''delete k noreply'' @ CRLF) EOF 16384, written = [], app = ()\<rparr> =
     Continue
       \<lparr>reader = NewReaderSize [] EOF 16384,
        written = [Reply (''ERROR delete not implemented'' @ [CHR 0x27] @ CRLF)], app = ()\<rparr> \<and>
   handleConn_body
     [''delete'' \<mapsto> (\<lambda>h req res. Returned h req (res\<lparr>Response := ''DELETED''\<rparr>) None)] 0 mem_1GiB
     \<lparr>reader = NewReaderSize (''delete k noreply'' @ CRLF) EOF 16384, written = [], app = ()\<rparr> =
     Continue \<lparr>reader = NewReaderSize [] EOF 16384, written = [], app = ()\<rparr> \<and>
   handleConn_body
     [''delete'' \<mapsto> (\<lambda>h req res. Returned h req (res\<lparr>Response := ''DELETED''\<rparr>) None)] 0 mem_1GiB
     \<lparr>reader = NewReaderSize (''delete k'' @ CRLF) EOF 16384, written = [], app = ()\<rparr> =
     Continue \<lparr>reader = NewReaderSize [] EOF 16384,
               written = [Reply (''DELETED'' @ CRLF)], app = ()\<rparr>"
  by (simp add: handleConn_body_def run_defs Response_String_def Response0_def RespErr_def)

text \<open>
  C7. When the handler registered for the verb returns an error, the response keeps
  the values that the handler left in it and gets the status line
  \<open>SERVER_ERROR\<close> followed by the error's text; the reply, written unless the request
  asks for none, is the block of each of these values in their order and then that
  status line.
\<close>

theorem handler_error_keeps_values:
  assumes "ReadRequest now m (reader c) = (Ok req, r)" and "Command req \<noteq> ''quit''"
      and "methods (Command req) = Some fn"
      and "fn (app c) req Response0 = Returned h req' res (Some msg)"
  shows "\<exists>c'. handleConn_body methods now m c = Continue c' \<and>
              reader c' = r \<and> app c' = h \<and>
              written c' =
                written c @
                (if Noreply req' then []
                 else [Reply (Response_String (res\<lparr>Response := ''SERVER_ERROR '' @ msg\<rparr>))]) \<and>
              Values (res\<lparr>Response := ''SERVER_ERROR '' @ msg\<rparr>) = Values res \<and>
              Response_String (res\<lparr>Response := ''SERVER_ERROR '' @ msg\<rparr>) =
                concat (map value_block (Values res)) @ ''SERVER_ERROR '' @ msg @ CRLF"
  using assms
  by (simp add: handleConn_body_def Let_def RespServerErr_def Response_String_eq)

theorem handler_error_keeps_values_witness:
  "\<exists>c'. handleConn_body
           [''get'' \<mapsto> (\<lambda>h req res.
              Returned h req
                (res\<lparr>Values := Values res @ [\<lparr>Value.Key = ''a'', Flags = ''0'', Data = ''xy'', Cas = []\<rparr>]\<rparr>)
                (Some ''boom''))] 0 mem_1GiB
           \<lparr>reader = NewReaderSize (''get a b'' @ CRLF) EOF 16384, written = [], app = ()\<rparr> =
         Continue c' \<and>
         written c' = [Reply (''VALUE a 0 2'' @ CRLF @ ''xy'' @ CRLF @ ''SERVER_ERROR boom'' @ CRLF)]"
proof -
  let ?fn = "\<lambda>(h :: unit) (req :: Request) res.
              Returned h req
                (res\<lparr>Values := Values res @ [\<lparr>Value.Key = ''a'', Flags = ''0'', Data = ''xy'', Cas = []\<rparr>]\<rparr>)
                (Some ''boom'')"
  let ?c = "\<lparr>reader = NewReaderSize (''get a b'' @ CRLF) EOF 16384, written = [], app = ()\<rparr>"
  let ?req = "\<lparr>Command = ''get'', Key = [], Keys = [''a'', ''b''], Flags = [], Exptime = 0,
               Data = [], Value = 0, Cas = [], Noreply = False\<rparr>"
  have rd: "ReadRequest 0 mem_1GiB (reader ?c) = (Ok ?req, NewReaderSize [] EOF 16384)"
    by (simp add: run_defs)
  have two: "Itoa 2 = ''2''"
    by (simp add: Itoa_def format_dec.simps digit_char_def)
  from handler_error_keeps_values [of 0 mem_1GiB ?c ?req "NewReaderSize [] EOF 16384" "[''get'' \<mapsto> ?fn]" ?fn
      "()" ?req "Response0\<lparr>Values := Values Response0 @ [\<lparr>Value.Key = ''a'', Flags = ''0'', Data = ''xy'', Cas = []\<rparr>]\<rparr>" "''boom''", OF rd]
  have "\<exists>c'. handleConn_body [''get'' \<mapsto> ?fn] 0 mem_1GiB ?c = Continue c' \<and>
          written c' =
            [Reply (Response_String
               \<lparr>Response = ''SERVER_ERROR boom'',
                Values = [\<lparr>Value.Key = ''a'', Flags = ''0'', Data = ''xy'', Cas = []\<rparr>]\<rparr>)] \<and>
          Response_String
               \<lparr>Response = ''SERVER_ERROR boom'',
                Values = [\<lparr>Value.Key = ''a'', Flags = ''0'', Data = ''xy'', Cas = []\<rparr>]\<rparr> =
            ''VALUE a 0 2'' @ CRLF @ ''xy'' @ CRLF @ ''SERVER_ERROR boom'' @ CRLF"
    by (clarsimp simp: Response0_def value_block_def two CRLF_def CR_def LF_def)
  then obtain c' where
    "handleConn_body [''get'' \<mapsto> ?fn] 0 mem_1GiB ?c = Continue c'"
    "written c' = [Reply (''VALUE a 0 2'' @ CRLF @ ''xy'' @ CRLF @ ''SERVER_ERROR boom'' @ CRLF)]"
    by auto
  then show ?thesis
    by blast
qed

subsection \<open>Stop\<close>

text \<open>
  C9, as the code has it. Whatever the first call of \<open>Stop\<close> returns, a second call
  returns nil, does nothing and leaves the server as it is: the sequence is run by the
  first call only. The first call on a server whose listener is open returns nil after
  closing the listener, sleeping, closing every registered connection and waiting; on a
  server that was never started it returns nil after setting the flag. The first call
  returns an error exactly when closing the listener fails, and then it is that error,
  returned after the same sequence.
\<close>

theorem Stop_twice:
  assumes "Stop s = ((err, acts), s')"
  shows "Stop s' = ((None, []), s') \<and>
         (stopped s = 0 \<and> ln s = Some l \<and> \<not> ln_closed l \<longrightarrow>
            err = None \<and> stopped s' = 1 \<and> ln s' = Some (l\<lparr>ln_closed := True\<rparr>) \<and>
            acts = [CloseListener, Sleep 200] @ map CloseConn (clients s) @ [WaitOneSecond]) \<and>
         (stopped s = 0 \<and> ln s = None \<longrightarrow> err = None \<and> stopped s' = 1 \<and> acts = []) \<and>
         (stopped s = 0 \<and> ln s = Some l \<and> ln_closed l \<longrightarrow>
            err = Some (NetError ''use of closed network connection'') \<and> stopped s' = 1 \<and>
            acts = [CloseListener, Sleep 200] @ map CloseConn (clients s) @ [WaitOneSecond]) \<and>
         (stopped s \<noteq> 0 \<longrightarrow> err = None \<and> acts = [] \<and> s' = s)"
  using assms
  by (auto simp: Stop_def Listener_Close_def drainConn_def Let_def split: if_splits option.splits)

theorem Stop_twice_witness:
  "Stop \<lparr>addr = ''127.0.0.1:11211'', ln = Some \<lparr>ln_closed = False\<rparr>, clients = [3, 5], stopped = 0\<rparr> =
     ((None, [CloseListener, Sleep 200, CloseConn 3, CloseConn 5, WaitOneSecond]),
      \<lparr>addr = ''127.0.0.1:11211'', ln = Some \<lparr>ln_closed = True\<rparr>, clients = [3, 5], stopped = 1\<rparr>) \<and>
   Stop \<lparr>addr = ''127.0.0.1:11211'', ln = Some \<lparr>ln_closed = True\<rparr>, clients = [3, 5], stopped = 1\<rparr> =
     ((None, []),
      \<lparr>addr = ''127.0.0.1:11211'', ln = Some \<lparr>ln_closed = True\<rparr>, clients = [3, 5], stopped = 1\<rparr>)"
proof -
  let ?s = "\<lparr>addr = ''127.0.0.1:11211'', ln = Some \<lparr>ln_closed = False\<rparr>, clients = [3, 5], stopped = 0\<rparr>"
  let ?s' = "\<lparr>addr = ''127.0.0.1:11211'', ln = Some \<lparr>ln_closed = True\<rparr>, clients = [3, 5], stopped = 1\<rparr>"
  have first: "Stop ?s = ((None, [CloseListener, Sleep 200, CloseConn 3, CloseConn 5, WaitOneSecond]), ?s')"
    by (simp add: Stop_def Listener_Close_def drainConn_def)
  from Stop_twice [OF first, where l = "\<lparr>ln_closed = False\<rparr>"] first show ?thesis
    by simp
qed

text \<open>
  The claim as stated fails on a server whose listener is closed already (the accept
  loop closes it when it returns): the first call of \<open>Stop\<close> returns the error of
  \<open>ln.Close()\<close>, not nil.
\<close>

theorem Stop_error_counterexample:
  "fst (fst (Stop \<lparr>addr = ''127.0.0.1:11211'', ln = Some \<lparr>ln_closed = True\<rparr>, clients = [], stopped = 0\<rparr>)) =
     Some (NetError ''use of closed network connection'')"
  by (simp add: Stop_def Listener_Close_def drainConn_def)

end
